theory Spec2Isabelle
  imports Complex_Main "HOL-Library.Sublist"
begin

section \<open>Python strings\<close>

text \<open>
  A Python \<^verbatim>\<open>str\<close> is modelled as a \<^typ>\<open>string\<close> whose characters are the code
  points below 256 (Latin-1). The character classes below are the ones CPython uses
  on that range: \<^verbatim>\<open>str.isspace\<close> (also the regex class \<^verbatim>\<open>\s\<close>), the regex class
  \<^verbatim>\<open>\w\<close> (alphanumerics and the underscore) and \<^verbatim>\<open>str.lower\<close>.
\<close>

definition code_point :: "char \<Rightarrow> nat" where
  "code_point c = of_char c"

definition is_space :: "char \<Rightarrow> bool" where
  "is_space c =
     (let n = code_point c
      in (9 \<le> n \<and> n \<le> 13) \<or> (28 \<le> n \<and> n \<le> 32) \<or> n = 133 \<or> n = 160)"

definition is_word :: "char \<Rightarrow> bool" where
  "is_word c =
     (let n = code_point c
      in (48 \<le> n \<and> n \<le> 57) \<or> (65 \<le> n \<and> n \<le> 90) \<or> n = 95 \<or> (97 \<le> n \<and> n \<le> 122)
         \<or> n = 170 \<or> n = 178 \<or> n = 179 \<or> n = 181 \<or> n = 185 \<or> n = 186
         \<or> (188 \<le> n \<and> n \<le> 190) \<or> (192 \<le> n \<and> n \<le> 214) \<or> (216 \<le> n \<and> n \<le> 246)
         \<or> 248 \<le> n)"

definition lower_char :: "char \<Rightarrow> char" where
  "lower_char c =
     (let n = code_point c
      in if (65 \<le> n \<and> n \<le> 90) \<or> (192 \<le> n \<and> n \<le> 214) \<or> (216 \<le> n \<and> n \<le> 222)
         then char_of (n + 32) else c)"

text \<open>\<^verbatim>\<open>s.lower()\<close>\<close>

definition lower :: "string \<Rightarrow> string" where
  "lower s = map lower_char s"

text \<open>\<^verbatim>\<open>s.strip()\<close>: leading and trailing whitespace removed.\<close>

definition lstrip :: "string \<Rightarrow> string" where
  "lstrip s = dropWhile is_space s"

definition rstrip :: "string \<Rightarrow> string" where
  "rstrip s = rev (dropWhile is_space (rev s))"

definition strip :: "string \<Rightarrow> string" where
  "strip s = rstrip (lstrip s)"

text \<open>
  \<^verbatim>\<open>s.split(sep)\<close> for a one-character separator: the pieces between the separators,
  empty pieces kept, always at least one piece.
\<close>

fun split_on :: "char \<Rightarrow> string \<Rightarrow> string list" where
  "split_on sep [] = [[]]"
| "split_on sep (c # cs) =
     (if c = sep then [] # split_on sep cs
      else (case split_on sep cs of
              [] \<Rightarrow> [[c]]
            | p # ps \<Rightarrow> (c # p) # ps))"

text \<open>
  \<^verbatim>\<open>s.split()\<close>: the maximal runs of non-whitespace characters. The first argument
  is the word being read (reversed).
\<close>

fun split_ws_aux :: "string \<Rightarrow> string \<Rightarrow> string list" where
  "split_ws_aux w [] = (if w = [] then [] else [rev w])"
| "split_ws_aux w (c # cs) =
     (if is_space c then (if w = [] then split_ws_aux [] cs else rev w # split_ws_aux [] cs)
      else split_ws_aux (c # w) cs)"

definition split_ws :: "string \<Rightarrow> string list" where
  "split_ws s = split_ws_aux [] s"

text \<open>\<^verbatim>\<open>sep.join(xs)\<close>\<close>

fun join :: "string \<Rightarrow> string list \<Rightarrow> string" where
  "join sep [] = []"
| "join sep [x] = x"
| "join sep (x # y # ys) = x @ sep @ join sep (y # ys)"

text \<open>\<^verbatim>\<open>a in b\<close> on strings is the contiguous-substring test \<^const>\<open>sublist\<close>.\<close>

section \<open>The sequence matcher\<close>

text \<open>
  \<^verbatim>\<open>difflib.SequenceMatcher(None, a, b).ratio()\<close> belongs to the Python standard library,
  not to this program. Every function that calls it takes it as its first argument
  \<open>ratio\<close>. The library documents its result as a number in \<open>[0, 1]\<close>;
  theorems that need this say so with \<open>ratio_in_unit\<close>.
\<close>

type_synonym matcher = "string \<Rightarrow> string \<Rightarrow> real"

definition ratio_in_unit :: "matcher \<Rightarrow> bool" where
  "ratio_in_unit ratio = (\<forall>a b. 0 \<le> ratio a b \<and> ratio a b \<le> 1)"

text \<open>
  An instance of the parameter for concrete examples: 1 on identical strings (as
  the library gives), 0 otherwise.
\<close>

definition identity_ratio :: matcher where
  "identity_ratio a b = (if a = b then 1 else 0)"

section \<open>Vendor matcher (src/vendor\_matcher.py)\<close>

subsection \<open>\<^verbatim>\<open>_normalize_name\<close>\<close>

text \<open>
  The alternatives of the suffix pattern
  \<^verbatim>\<open>\b(?:inc|llc|ltd|corp|corporation|company|co|aps|a/s|as|bv|gmbh|sarl|srl|ab|oy|plc)\b\.?\<close>
  in the order the regex engine tries them.
\<close>

definition suffixes :: "string list" where
  "suffixes = [''inc'', ''llc'', ''ltd'', ''corp'', ''corporation'', ''company'', ''co'',
     ''aps'', ''a/s'', ''as'', ''bv'', ''gmbh'', ''sarl'', ''srl'', ''ab'', ''oy'', ''plc'']"

text \<open>
  \<open>next_is_word s\<close>: the string \<open>s\<close> starts with a word character. A word boundary
  \<^verbatim>\<open>\b\<close> lies between two positions exactly when one side is a word character and the
  other is not (the ends of the string count as non-word).
\<close>

definition next_is_word :: "string \<Rightarrow> bool" where
  "next_is_word s = (case s of [] \<Rightarrow> False | c # _ \<Rightarrow> is_word c)"

text \<open>
  \<open>alt_matches s alt\<close>: the alternative \<open>alt\<close> matches at the start of \<open>s\<close> and is
  followed by a word boundary.
\<close>

definition alt_matches :: "string \<Rightarrow> string \<Rightarrow> bool" where
  "alt_matches s alt =
     (prefix alt s \<and> alt \<noteq> [] \<and> (is_word (last alt) \<noteq> next_is_word (drop (length alt) s)))"

text \<open>
  \<open>suffix_match_at prev_word s\<close>: the length of the match of the whole pattern at the
  start of \<open>s\<close>, when the character before \<open>s\<close> is a word character iff \<open>prev_word\<close>.
  The first alternative that matches and is followed by a boundary is taken (the
  engine backtracks into the later alternatives otherwise); the optional period is
  greedy.
\<close>

definition suffix_match_at :: "bool \<Rightarrow> string \<Rightarrow> nat option" where
  "suffix_match_at prev_word s =
     (if prev_word = next_is_word s then None
      else (case List.find (alt_matches s) suffixes of
              None \<Rightarrow> None
            | Some alt \<Rightarrow>
                Some (length alt +
                  (case drop (length alt) s of [] \<Rightarrow> 0 | c # _ \<Rightarrow> if c = CHR ''.'' then 1 else 0))))"

text \<open>
  \<^verbatim>\<open>re.sub(suffixes_pattern, '', name)\<close>: scan from the left; where the pattern matches,
  drop the matched characters and go on after them; elsewhere keep the character.
  \<open>skip\<close> counts the characters of the current match still to be dropped.
\<close>

fun remove_suffixes_aux :: "nat \<Rightarrow> bool \<Rightarrow> string \<Rightarrow> string" where
  "remove_suffixes_aux skip prev_word [] = []"
| "remove_suffixes_aux (Suc k) prev_word (c # cs) = remove_suffixes_aux k (is_word c) cs"
| "remove_suffixes_aux 0 prev_word (c # cs) =
     (case suffix_match_at prev_word (c # cs) of
        None \<Rightarrow> c # remove_suffixes_aux 0 (is_word c) cs
      | Some n \<Rightarrow> remove_suffixes_aux (n - 1) (is_word c) cs)"

definition remove_suffixes :: "string \<Rightarrow> string" where
  "remove_suffixes s = remove_suffixes_aux 0 False s"

text \<open>\<^verbatim>\<open>re.sub(r'[^\w\s]', ' ', name)\<close>\<close>

definition replace_special :: "string \<Rightarrow> string" where
  "replace_special s = map (\<lambda>c. if is_word c \<or> is_space c then c else CHR '' '') s"

text \<open>\<^verbatim>\<open>re.sub(r'\s+', ' ', name)\<close>: every maximal run of whitespace becomes one space
  (\<open>in_run\<close>: the previous character was whitespace).\<close>

fun collapse_spaces_aux :: "bool \<Rightarrow> string \<Rightarrow> string" where
  "collapse_spaces_aux in_run [] = []"
| "collapse_spaces_aux in_run (c # cs) =
     (if is_space c then (if in_run then collapse_spaces_aux True cs
                          else CHR '' '' # collapse_spaces_aux True cs)
      else c # collapse_spaces_aux False cs)"

definition collapse_spaces :: "string \<Rightarrow> string" where
  "collapse_spaces s = collapse_spaces_aux False s"

definition normalize_name :: "string \<Rightarrow> string" where
  "normalize_name name =
     (if name = [] then []
      else strip (collapse_spaces (replace_special (remove_suffixes (strip (lower name))))))"

subsection \<open>\<^verbatim>\<open>_calculate_similarity\<close>\<close>

definition calculate_similarity :: "matcher \<Rightarrow> string \<Rightarrow> string \<Rightarrow> real" where
  "calculate_similarity ratio str1 str2 =
     (if str1 = [] \<or> str2 = [] then 0
      else if \<bar>int (length str1) - int (length str2)\<bar> > max (length str1) (length str2) * (5 / 10 :: real)
        then 0
      else if sublist str1 str2 \<or> sublist str2 str1 then 9 / 10
      else ratio str1 str2)"

subsection \<open>The vendor table\<close>

text \<open>
  The columns of \<^verbatim>\<open>Vendor\<close> (src/models.py) that the matcher reads. \<^verbatim>\<open>name\<close> is not
  nullable; \<^verbatim>\<open>nicknames\<close> and \<^verbatim>\<open>domain\<close> are (\<open>None\<close> is SQL NULL). The table is the
  list of its rows in the order the store returns them.
\<close>

record vendor =
  v_id :: int
  v_name :: string
  v_nicknames :: "string option"
  v_domain :: "string option"

text \<open>
  \<^verbatim>\<open>Vendor.name.ilike(x)\<close> is compiled for SQLite (the engine of src/models.py) to
  \<^verbatim>\<open>lower(name) LIKE lower(x)\<close>. SQLite's \<^verbatim>\<open>lower\<close> folds the ASCII letters only; in a
  \<^verbatim>\<open>LIKE\<close> pattern \<^verbatim>\<open>%\<close> stands for any run of characters and \<^verbatim>\<open>_\<close> for any one
  character, and there is no escape character.
\<close>

definition sql_lower_char :: "char \<Rightarrow> char" where
  "sql_lower_char c =
     (let n = code_point c in if 65 \<le> n \<and> n \<le> 90 then char_of (n + 32) else c)"

definition sql_lower :: "string \<Rightarrow> string" where
  "sql_lower s = map sql_lower_char s"

fun sql_like :: "string \<Rightarrow> string \<Rightarrow> bool" where
  "sql_like [] s = (s = [])"
| "sql_like (p # ps) [] = (p = CHR ''%'' \<and> sql_like ps [])"
| "sql_like (p # ps) (c # cs) =
     (if p = CHR ''%'' then sql_like ps (c # cs) \<or> sql_like (p # ps) cs
      else (p = CHR ''_'' \<or> p = c) \<and> sql_like ps cs)"

definition ilike :: "string \<Rightarrow> string \<Rightarrow> bool" where
  "ilike column pattern = sql_like (sql_lower pattern) (sql_lower column)"

subsection \<open>\<^verbatim>\<open>_find_exact_match\<close>\<close>

text \<open>
  \<^verbatim>\<open>query(Vendor).filter(Vendor.name.ilike(original_name)).first()\<close> is the first row
  that matches; an ORM object is always truthy. Otherwise the loop over
  \<^verbatim>\<open>query(Vendor).all()\<close> returns the first row whose normalised name is the normalised
  input.
\<close>

definition find_exact_match :: "vendor list \<Rightarrow> string \<Rightarrow> string \<Rightarrow> vendor option" where
  "find_exact_match vendors original_name normalized_name =
     (case List.find (\<lambda>v. ilike (v_name v) original_name) vendors of
        Some exact_match \<Rightarrow> Some exact_match
      | None \<Rightarrow> List.find (\<lambda>v. normalize_name (v_name v) = normalized_name) vendors)"

subsection \<open>\<^verbatim>\<open>_check_nicknames\<close>, \<^verbatim>\<open>_check_domain\<close>, \<^verbatim>\<open>_find_fuzzy_match\<close>\<close>

definition check_nicknames :: "matcher \<Rightarrow> string \<Rightarrow> string \<Rightarrow> real" where
  "check_nicknames ratio normalized_input nicknames_str =
     foldl (\<lambda>best_score nickname.
              (let nickname = strip nickname
               in if nickname \<noteq> []
                  then max best_score
                         (calculate_similarity ratio normalized_input (normalize_name nickname))
                  else best_score))
       0 (split_on CHR '','' nicknames_str)"

definition check_domain :: "matcher \<Rightarrow> string \<Rightarrow> string \<Rightarrow> real" where
  "check_domain ratio normalized_input domain =
     (let domain_parts = split_on CHR ''.'' (lower domain);
          domain_name =
            (if length domain_parts > 1
             then (if length domain_parts \<ge> 2 then domain_parts ! (length domain_parts - 2)
                   else domain_parts ! 0)
             else lower domain)
      in calculate_similarity ratio normalized_input domain_name)"

definition threshold :: real where
  "threshold = 8 / 10"

text \<open>A nullable text column is truthy when it is neither NULL nor empty.\<close>

definition truthy :: "string option \<Rightarrow> bool" where
  "truthy x = (case x of None \<Rightarrow> False | Some s \<Rightarrow> s \<noteq> [])"

text \<open>
  One round of the loop of \<^verbatim>\<open>_find_fuzzy_match\<close>, from the state
  \<open>(best_match, best_score)\<close> to the state after the vendor.
\<close>

definition fuzzy_step ::
  "matcher \<Rightarrow> string \<Rightarrow> vendor option \<times> real \<Rightarrow> vendor \<Rightarrow> vendor option \<times> real" where
  "fuzzy_step ratio normalized_input st v =
     (let score = calculate_similarity ratio normalized_input (normalize_name (v_name v));
          st1 = (if score > snd st \<and> score \<ge> threshold then (Some v, score) else st);
          st2 = (if truthy (v_nicknames v) \<and> score < 95 / 100
                 then (let nickname_score =
                             check_nicknames ratio normalized_input (the (v_nicknames v))
                       in if nickname_score > snd st1 \<and> nickname_score \<ge> threshold
                          then (Some v, nickname_score) else st1)
                 else st1);
          st3 = (if truthy (v_domain v) \<and> snd st2 < 1
                 then (let domain_score =
                             check_domain ratio normalized_input (the (v_domain v))
                       in if domain_score > snd st2 \<and> domain_score \<ge> threshold
                          then (Some v, domain_score) else st2)
                 else st2)
      in st3)"

definition find_fuzzy_match :: "matcher \<Rightarrow> vendor list \<Rightarrow> string \<Rightarrow> (vendor \<times> real) option" where
  "find_fuzzy_match ratio vendors normalized_input =
     (case foldl (fuzzy_step ratio normalized_input) (None, 0) vendors of
        (Some best_match, best_score) \<Rightarrow> Some (best_match, best_score)
      | (None, _) \<Rightarrow> None)"

subsection \<open>\<^verbatim>\<open>find_existing_vendor\<close>\<close>

text \<open>
  The function returns its result together with the passes over the vendor table it
  has made, in order: each call of \<^verbatim>\<open>_find_exact_match\<close> and of \<^verbatim>\<open>_find_fuzzy_match\<close>
  is logged.
\<close>

datatype pass = Exact_pass | Fuzzy_pass

definition find_existing_vendor ::
  "matcher \<Rightarrow> vendor list \<Rightarrow> string \<Rightarrow> (vendor \<times> real) option \<times> pass list" where
  "find_existing_vendor ratio vendors name =
     (if name = [] then (None, [])
      else (let normalized_input = normalize_name name
            in if normalized_input = [] then (None, [])
               else (case find_exact_match vendors name normalized_input of
                       Some exact_vendor \<Rightarrow> (Some (exact_vendor, 1), [Exact_pass])
                     | None \<Rightarrow>
                         (find_fuzzy_match ratio vendors normalized_input,
                          [Exact_pass, Fuzzy_pass]))))"

section \<open>Transactions\<close>

text \<open>
  A transaction dictionary as \<^verbatim>\<open>CSVUtils.create_transaction_data\<close> (src/utils.py) builds
  it: texts are strings, the amount is a number, the date is a \<^verbatim>\<open>datetime\<close>. A field is
  \<open>None\<close> when the key is absent. Floats are modelled as reals; a naive \<^verbatim>\<open>datetime\<close> is
  the number of microseconds since a fixed origin, so that the difference of two of
  them is a \<^verbatim>\<open>timedelta\<close> in microseconds.
\<close>

record txn =
  txn_date :: "int option"
  txn_text :: "string option"
  txn_message :: "string option"
  txn_amount :: "real option"
  txn_currency :: "string option"
  txn_sender :: "string option"
  txn_receiver :: "string option"

text \<open>
  The columns of a stored \<^verbatim>\<open>Transaction\<close> row (src/models.py) that the duplicate scan
  reads; all three are nullable.
\<close>

record txn_row =
  row_id :: int
  row_date :: "int option"
  row_text :: "string option"
  row_amount :: "real option"

text \<open>\<^verbatim>\<open>transaction.get(key, '')\<close> and \<^verbatim>\<open>transaction.get(key, 0)\<close>\<close>

definition get_str :: "string option \<Rightarrow> string" where
  "get_str x = (case x of None \<Rightarrow> [] | Some s \<Rightarrow> s)"

definition get_num :: "real option \<Rightarrow> real" where
  "get_num x = (case x of None \<Rightarrow> 0 | Some a \<Rightarrow> a)"

definition microseconds_per_day :: int where
  "microseconds_per_day = 86400000000"

text \<open>\<^verbatim>\<open>timedelta.total_seconds()\<close> and \<^verbatim>\<open>timedelta.days\<close> (the latter rounds down).\<close>

definition total_seconds :: "int \<Rightarrow> real" where
  "total_seconds delta = real_of_int delta / 1000000"

definition days :: "int \<Rightarrow> int" where
  "days delta = delta div microseconds_per_day"

section \<open>Confidence calculator (src/confidence\_calculator.py)\<close>

subsection \<open>\<^verbatim>\<open>calculate_transaction_quality_score\<close>\<close>

definition text_part :: "txn \<Rightarrow> real" where
  "text_part transaction =
     (let text = get_str (txn_text transaction)
      in if text \<noteq> []
         then (let text_score = min (real (length text) / 50) 1;
                   text_score = text_score * (7 / 10 + 3 / 10 * (real (length (split_ws text)) / 10))
               in text_score * (3 / 10))
         else 0)"

definition amount_part :: "txn \<Rightarrow> real" where
  "amount_part transaction =
     (let amount = get_num (txn_amount transaction)
      in if amount \<noteq> 0
         then (let abs_amount = \<bar>amount\<bar>;
                   amount_score =
                     (if abs_amount > 0
                      then (let log_amount = log 10 (max abs_amount 1);
                                amount_score = min (log_amount / 4) 1
                            in max amount_score (3 / 10))
                      else 3 / 10)
               in amount_score * (2 / 10))
         else 0)"

text \<open>
  \<^verbatim>\<open>sum(1 for field in fields if transaction.get(field))\<close> over date, sender, receiver,
  message, currency: a \<^verbatim>\<open>datetime\<close> is always truthy, a string when it is not empty.
\<close>

definition filled_fields :: "txn \<Rightarrow> nat" where
  "filled_fields transaction =
     (if txn_date transaction \<noteq> None then 1 else 0)
     + (if truthy (txn_sender transaction) then 1 else 0)
     + (if truthy (txn_receiver transaction) then 1 else 0)
     + (if truthy (txn_message transaction) then 1 else 0)
     + (if truthy (txn_currency transaction) then 1 else 0)"

definition completeness_part :: "txn \<Rightarrow> real" where
  "completeness_part transaction = real (filled_fields transaction) / 5 * (3 / 10)"

definition message_part :: "txn \<Rightarrow> real" where
  "message_part transaction =
     (let message = get_str (txn_message transaction)
      in if message \<noteq> [] \<and> strip message \<noteq> []
         then min (real (length message) / 30) 1 * (2 / 10)
         else 0)"

text \<open>
  \<open>score\<close> collects the four parts; \<open>max_score\<close> is increased by the four weights
  whatever the transaction holds.
\<close>

definition calculate_transaction_quality_score :: "txn \<Rightarrow> real" where
  "calculate_transaction_quality_score transaction =
     (let score = 0 + text_part transaction + amount_part transaction
                    + completeness_part transaction + message_part transaction;
          max_score = 0 + 3 / 10 + 2 / 10 + 3 / 10 + 2 / 10
      in if max_score > 0 then score / max_score else 0)"

subsection \<open>\<^verbatim>\<open>calculate_vendor_confidence\<close>\<close>

text \<open>
  \<^verbatim>\<open>if identification_confidence:\<close> holds for a supplied number other than zero.
\<close>

definition supplied :: "real option \<Rightarrow> bool" where
  "supplied c = (case c of None \<Rightarrow> False | Some x \<Rightarrow> x \<noteq> 0)"

definition text_content :: "txn \<Rightarrow> string" where
  "text_content transaction =
     lower (join '' '' [get_str (txn_text transaction), get_str (txn_message transaction),
                        get_str (txn_sender transaction), get_str (txn_receiver transaction)])"

definition calculate_vendor_confidence :: "matcher \<Rightarrow> string \<Rightarrow> txn \<Rightarrow> real option \<Rightarrow> real" where
  "calculate_vendor_confidence ratio vendor_name transaction identification_confidence =
     (if vendor_name = [] then 0
      else (let vendor_lower = lower vendor_name;
                similarity_score = ratio vendor_lower (text_content transaction);
                best_partial_match =
                  foldl (\<lambda>best word. if length word > 2 then max best (ratio vendor_lower word)
                                       else best)
                    0 (split_ws (text_content transaction));
                combined_similarity = max similarity_score (best_partial_match * (8 / 10));
                similarity_confidence = 1 / (1 + exp (- 8 * (combined_similarity - 4 / 10)));
                final_confidence =
                  (if supplied identification_confidence
                   then 6 / 10 * similarity_confidence + 4 / 10 * the identification_confidence
                   else similarity_confidence)
            in max 0 (min final_confidence 1)))"

subsection \<open>\<^verbatim>\<open>calculate_domain_confidence\<close>\<close>

text \<open>
  \<^verbatim>\<open>urllib.parse.urlparse\<close> is a library function: \<open>netloc url\<close> stands for
  \<^verbatim>\<open>urlparse(url).netloc\<close>, and is \<open>None\<close> when \<^verbatim>\<open>urlparse\<close> raises. The parameter
  \<^verbatim>\<open>company_name\<close> is not used by the source.
\<close>

definition calculate_domain_confidence ::
  "(string \<Rightarrow> string option) \<Rightarrow> string \<Rightarrow> string \<Rightarrow> real \<Rightarrow> int \<Rightarrow> int \<Rightarrow> int \<Rightarrow> bool \<times> real" where
  "calculate_domain_confidence netloc domain company_name response_time content_matches
       total_words status_code =
     (if domain = [] then (False, 0)
      else (case netloc (if \<not> prefix ''http'' domain then ''https://'' @ domain else domain) of
              None \<Rightarrow> (False, 0)
            | Some parsed_netloc \<Rightarrow>
                if parsed_netloc = [] then (False, 0)
                else if status_code \<noteq> 200
                  then (False, max (5 / 100) (1 / 10 - real_of_int \<bar>status_code - 200\<bar> / 1000))
                else (let time_factor =
                            (if response_time > 0
                             then (if response_time < 1 then 1
                                   else if response_time < 3 then 9 / 10 else 8 / 10)
                             else 1);
                          content_score =
                            (if content_matches > 0 \<and> total_words > 0
                             then (let match_ratio = real_of_int content_matches / real_of_int total_words
                                   in 2 / 10 + 6 / 10 * (1 / (1 + exp (- 5 * (match_ratio - 3 / 10)))))
                             else 2 / 10);
                          domain_quality = 1;
                          final_confidence = content_score * time_factor * domain_quality
                      in (True, max (1 / 10) (min final_confidence 1)))))"

text \<open>
  An instance of the parameter for concrete examples: for a URL that starts with
  \<^verbatim>\<open>https://\<close>, the text up to the next slash.
\<close>

definition example_netloc :: "string \<Rightarrow> string option" where
  "example_netloc url =
     (if prefix ''https://'' url then Some (takeWhile (\<lambda>c. c \<noteq> CHR ''/'') (drop 8 url))
      else Some [])"

section \<open>Duplicate detection\<close>

subsection \<open>\<^verbatim>\<open>_transactions_match\<close> (src/compact\_processor.py)\<close>

definition transactions_match :: "txn \<Rightarrow> txn \<Rightarrow> bool" where
  "transactions_match trans1 trans2 =
     (case (txn_date trans1, txn_date trans2) of
        (Some date1, Some date2) \<Rightarrow>
          \<bar>get_num (txn_amount trans1) - get_num (txn_amount trans2)\<bar> < 1 / 100
          \<and> get_str (txn_text trans1) = get_str (txn_text trans2)
          \<and> \<bar>total_seconds (date1 - date2)\<bar> < 86400
      | _ \<Rightarrow> False)"

subsection \<open>\<^verbatim>\<open>DuplicateDetector.find_duplicate_transactions\<close> (src/utils.py)\<close>

text \<open>
  \<^verbatim>\<open>new_trans["key"]\<close> raises \<^verbatim>\<open>KeyError\<close> on an absent key; subtracting SQL NULL
  (\<^verbatim>\<open>None\<close>) from a number raises \<^verbatim>\<open>TypeError\<close>.
\<close>

datatype py_error = KeyError | TypeError

text \<open>\<^verbatim>\<open>abs((new_trans["date"] - existing.date).days) if existing.date else 999\<close>\<close>

definition compute_date_diff :: "txn \<Rightarrow> txn_row \<Rightarrow> py_error + int" where
  "compute_date_diff new_trans existing =
     (case row_date existing of
        None \<Rightarrow> Inr 999
      | Some existing_date \<Rightarrow>
          (case txn_date new_trans of
             None \<Rightarrow> Inl KeyError
           | Some new_date \<Rightarrow> Inr \<bar>days (new_date - existing_date)\<bar>))"

text \<open>
  The body of the inner loop for one stored transaction: \<open>Inr None\<close> when the body
  ends without appending (\<^verbatim>\<open>continue\<close>, or a text similarity below 0.85),
  \<open>Inr (Some similarity_score)\<close> when it appends a tuple and leaves the loop.
\<close>

definition compare_pair :: "matcher \<Rightarrow> txn \<Rightarrow> txn_row \<Rightarrow> py_error + real option" where
  "compare_pair ratio new_trans existing =
     (case compute_date_diff new_trans existing of
        Inl e \<Rightarrow> Inl e
      | Inr date_diff \<Rightarrow>
          if date_diff > 1 then Inr None
          else (case txn_amount new_trans of
                  None \<Rightarrow> Inl KeyError
                | Some new_amount \<Rightarrow>
                    (case row_amount existing of
                       None \<Rightarrow> Inl TypeError
                     | Some existing_amount \<Rightarrow>
                         if \<bar>new_amount - existing_amount\<bar> > 1 / 100 then Inr None
                         else (case txn_text new_trans of
                                 None \<Rightarrow> Inl KeyError
                               | Some new_text \<Rightarrow>
                                   (let text_similarity =
                                          ratio (lower new_text) (lower (get_str (row_text existing)))
                                    in if text_similarity \<ge> 85 / 100
                                       then Inr (Some ((if date_diff = 0 then 1 else 8 / 10) * (3 / 10)
                                                       + 1 * (3 / 10)
                                                       + text_similarity * (4 / 10)))
                                       else Inr None)))))"

text \<open>The inner loop: it stops at the first stored transaction that is accepted.\<close>

fun scan_existing ::
  "matcher \<Rightarrow> txn \<Rightarrow> txn_row list \<Rightarrow> py_error + (txn \<times> txn_row \<times> real) option" where
  "scan_existing ratio new_trans [] = Inr None"
| "scan_existing ratio new_trans (existing # rest) =
     (case compare_pair ratio new_trans existing of
        Inl e \<Rightarrow> Inl e
      | Inr None \<Rightarrow> scan_existing ratio new_trans rest
      | Inr (Some similarity_score) \<Rightarrow> Inr (Some (new_trans, existing, similarity_score)))"

text \<open>The outer loop, with the list \<open>duplicates\<close> built so far.\<close>

fun scan_new ::
  "matcher \<Rightarrow> txn list \<Rightarrow> txn_row list \<Rightarrow> (txn \<times> txn_row \<times> real) list
     \<Rightarrow> py_error + (txn \<times> txn_row \<times> real) list" where
  "scan_new ratio [] existing_transactions duplicates = Inr duplicates"
| "scan_new ratio (new_trans # rest) existing_transactions duplicates =
     (case scan_existing ratio new_trans existing_transactions of
        Inl e \<Rightarrow> Inl e
      | Inr None \<Rightarrow> scan_new ratio rest existing_transactions duplicates
      | Inr (Some dup) \<Rightarrow> scan_new ratio rest existing_transactions (duplicates @ [dup]))"

text \<open>
  \<^verbatim>\<open>query(Transaction).filter(Transaction.date >= cutoff_date).all()\<close>: the rows of the
  table, in its order, whose date is not NULL and not before the cutoff. \<open>now\<close> is the
  value of \<^verbatim>\<open>datetime.now()\<close>.
\<close>

definition recent_transactions :: "txn_row list \<Rightarrow> int \<Rightarrow> int \<Rightarrow> txn_row list" where
  "recent_transactions table now days_lookback =
     (let cutoff_date = now - days_lookback * microseconds_per_day
      in filter (\<lambda>t. case row_date t of None \<Rightarrow> False | Some d \<Rightarrow> d \<ge> cutoff_date) table)"

definition find_duplicate_transactions ::
  "matcher \<Rightarrow> txn list \<Rightarrow> txn_row list \<Rightarrow> int \<Rightarrow> int
     \<Rightarrow> py_error + (txn \<times> txn_row \<times> real) list" where
  "find_duplicate_transactions ratio new_transactions table now days_lookback =
     scan_new ratio new_transactions (recent_transactions table now days_lookback) []"

subsection \<open>A small table for the examples\<close>

text \<open>
  A new transaction dated one day after the origin, the same payment stored twice
  (dated the day before and the same day), and the new transaction with its amount
  two cents off.
\<close>

definition rent_new :: txn where
  "rent_new = \<lparr>txn_date = Some 86400000000, txn_text = Some ''RENT MAY'', txn_message = None,
     txn_amount = Some (- 5000), txn_currency = None, txn_sender = None, txn_receiver = None\<rparr>"

definition rent_two_cents_off :: txn where
  "rent_two_cents_off = rent_new\<lparr>txn_amount := Some (- 500002 / 100)\<rparr>"

definition rent_day_before :: txn_row where
  "rent_day_before = \<lparr>row_id = 1, row_date = Some 0, row_text = Some ''Rent May'',
     row_amount = Some (- 5000)\<rparr>"

definition rent_same_day :: txn_row where
  "rent_same_day = \<lparr>row_id = 2, row_date = Some 86400000000, row_text = Some ''Rent May'',
     row_amount = Some (- 5000)\<rparr>"

subsection \<open>Vendor names for the examples\<close>

text \<open>
  The name of the Danish island written in capitals, in small letters, and as a company
  name with a suffix. The first and the last letter are the Latin-1 letters with code
  points 198 and 216 (capital) and 230 and 248 (small), which the ASCII case folding of
  the store leaves alone.
\<close>

definition island_upper :: string where
  "island_upper = [CHR 0xC6, CHR ''R'', CHR 0xD8]"

definition island_lower :: string where
  "island_lower = [CHR 0xE6, CHR ''r'', CHR 0xF8]"

definition island_inc :: string where
  "island_inc = [CHR 0xC6, CHR ''r'', CHR 0xF8] @ '' Inc''"

section \<open>Properties of the vendor matcher\<close>

subsection \<open>Normalisation\<close>

text \<open>
  C7. Normalising the vendor name "Acme Corp." and normalising the vendor name
  "acme corp" give the same string (both give "acme": the suffix "corp" goes with its
  trailing period).
\<close>

theorem normalize_name_acme:
  "normalize_name ''Acme Corp.'' = normalize_name ''acme corp''
   \<and> normalize_name ''acme corp'' = ''acme''"
  by code_simp

subsection \<open>Similarity of a string with itself\<close>

text \<open>
  C1. The claim is that \<^verbatim>\<open>_calculate_similarity(s, s)\<close> is 1.0 for every non-empty
  \<open>s\<close>. In the source a string is a substring of itself, so the substring branch
  answers before the sequence matcher is asked: the result is 0.9, whatever the
  matcher would have said.
\<close>

theorem similarity_of_identical_strings:
  "s \<noteq> [] \<Longrightarrow> calculate_similarity ratio s s = 9 / 10"
  by (simp add: calculate_similarity_def)

theorem similarity_of_identical_strings_witness:
  "''acme'' \<noteq> [] \<and> calculate_similarity identity_ratio ''acme'' ''acme'' = 9 / 10"
  using similarity_of_identical_strings [of "''acme''" identity_ratio] by simp

text \<open>
  The same through \<^verbatim>\<open>find_existing_vendor\<close>: a query identical to a stored nickname
  is matched in the fuzzy pass with score 0.9.
\<close>

lemma identical_nickname_scores_below_one:
  "find_existing_vendor identity_ratio
     [\<lparr>v_id = 1, v_name = ''Acme Holdings Group'', v_nicknames = Some ''Acme'', v_domain = None\<rparr>]
     ''Acme''
   = (Some (\<lparr>v_id = 1, v_name = ''Acme Holdings Group'', v_nicknames = Some ''Acme'',
              v_domain = None\<rparr>, 9 / 10), [Exact_pass, Fuzzy_pass])"
  by code_simp

subsection \<open>The exact pass\<close>

lemma sql_like_skip: "sql_like ps s \<Longrightarrow> sql_like (CHR ''%'' # ps) s"
  by (cases s) auto

lemma sql_like_refl: "sql_like p p"
proof (induction p)
  case Nil
  show ?case by simp
next
  case (Cons c p)
  show ?case
  proof (cases "c = CHR ''%''")
    case True
    from Cons have "sql_like (CHR ''%'' # p) p" by (rule sql_like_skip)
    with True show ?thesis by simp
  next
    case False
    with Cons show ?thesis by simp
  qed
qed

lemma sql_like_plain:
  "CHR ''%'' \<notin> set p \<Longrightarrow> CHR ''_'' \<notin> set p \<Longrightarrow> sql_like p s = (p = s)"
proof (induction p arbitrary: s)
  case Nil
  show ?case by auto
next
  case (Cons c p)
  then show ?case by (cases s) auto
qed

lemma code_point_char_of: "n < 256 \<Longrightarrow> code_point (char_of n) = n"
  by (simp add: code_point_def)

lemma sql_lower_char_wild:
  assumes "w = CHR ''%'' \<or> w = CHR ''_''"
  shows "sql_lower_char c = w \<longleftrightarrow> c = w"
proof (cases "65 \<le> code_point c \<and> code_point c \<le> 90")
  case True
  then have "code_point (sql_lower_char c) = code_point c + 32"
    by (simp add: sql_lower_char_def code_point_char_of)
  moreover from assms have "code_point w = 37 \<or> code_point w = 95"
    by (auto simp: code_point_def)
  ultimately show ?thesis using True by auto
next
  case False
  then show ?thesis by (auto simp: sql_lower_char_def Let_def)
qed

lemma sql_lower_wild:
  assumes "w = CHR ''%'' \<or> w = CHR ''_''"
  shows "w \<in> set (sql_lower q) \<longleftrightarrow> w \<in> set q"
proof -
  have "w \<in> set (sql_lower q) \<longleftrightarrow> (\<exists>c\<in>set q. sql_lower_char c = w)"
    by (auto simp: sql_lower_def)
  also have "\<dots> \<longleftrightarrow> w \<in> set q"
    using assms by (simp add: sql_lower_char_wild)
  finally show ?thesis .
qed

lemma ilike_same: "sql_lower column = sql_lower pattern \<Longrightarrow> ilike column pattern"
  by (simp add: ilike_def sql_like_refl)

lemma ilike_plain:
  "CHR ''%'' \<notin> set pattern \<Longrightarrow> CHR ''_'' \<notin> set pattern \<Longrightarrow>
   ilike column pattern = (sql_lower pattern = sql_lower column)"
  by (simp add: ilike_def sql_like_plain sql_lower_wild)

lemma normalize_name_nonempty: "normalize_name name \<noteq> [] \<Longrightarrow> name \<noteq> []"
  by (auto simp: normalize_name_def)

lemma lower_char_sql_lower_char: "lower_char (sql_lower_char c) = lower_char c"
proof (cases "65 \<le> code_point c \<and> code_point c \<le> 90")
  case True
  then have "sql_lower_char c = char_of (code_point c + 32)"
    by (simp add: sql_lower_char_def)
  moreover from True have "code_point (char_of (code_point c + 32)) = code_point c + 32"
    by (simp add: code_point_char_of)
  ultimately have "lower_char (sql_lower_char c) = char_of (code_point c + 32)"
    using True by (simp add: lower_char_def)
  moreover from True have "lower_char c = char_of (code_point c + 32)"
    by (simp add: lower_char_def)
  ultimately show ?thesis by simp
next
  case False
  then show ?thesis by (auto simp: sql_lower_char_def Let_def)
qed

lemma lower_sql_lower: "lower (sql_lower s) = lower s"
  by (simp add: lower_def sql_lower_def lower_char_sql_lower_char)

lemma sql_lower_eq_imp_lower_eq:
  assumes "sql_lower a = sql_lower b"
  shows "lower a = lower b"
proof -
  have "lower a = lower (sql_lower a)" by (simp add: lower_sql_lower)
  also have "\<dots> = lower (sql_lower b)" using assms by simp
  also have "\<dots> = lower b" by (simp add: lower_sql_lower)
  finally show ?thesis .
qed

lemma lower_eq_imp_normalize_name_eq:
  assumes "lower a = lower b"
  shows "normalize_name a = normalize_name b"
proof -
  from assms have "(a = []) = (b = [])" by (auto simp: lower_def)
  with assms show ?thesis by (simp add: normalize_name_def)
qed

lemma find_exact_match_in_set:
  "find_exact_match vendors original_name normalized_name = Some w \<Longrightarrow> w \<in> set vendors"
  by (auto simp: find_exact_match_def find_Some_iff split: option.splits)

lemma island_facts:
  "lower island_upper = lower island_lower"
  "lower island_inc \<noteq> lower island_lower"
  "normalize_name island_lower = island_lower"
  "normalize_name island_upper = island_lower"
  "normalize_name island_inc = island_lower"
  "normalize_name ''Acme Corp'' = ''acme''"
  "island_lower \<noteq> []"
  "island_lower \<noteq> ''acme''"
  "CHR ''%'' \<notin> set island_lower" "CHR ''_'' \<notin> set island_lower"
  by code_simp+

text \<open>
  C3, as amended. If the queried name has a non-empty normalised form and a stored
  vendor's canonical name equals the queried name under case-insensitive comparison,
  then \<^verbatim>\<open>find_existing_vendor\<close> returns a stored vendor with score exactly 1, and the
  exact pass is the only pass it makes over the vendor table: the fuzzy pass does not
  run. The vendor returned is that vendor when the queried name has neither \<^verbatim>\<open>%\<close> nor
  \<^verbatim>\<open>_\<close> and either no other stored vendor has the normalised name of the query, or
  the two names differ in the case of ASCII letters only and no other stored name
  equals the queried name under case-insensitive comparison.
\<close>

theorem exact_match_short_circuits:
  assumes stored: "v \<in> set vendors"
    and same: "lower (v_name v) = lower name"
    and normal: "normalize_name name \<noteq> []"
  shows "\<exists>w. find_existing_vendor ratio vendors name = (Some (w, 1), [Exact_pass])
           \<and> w \<in> set vendors
           \<and> (CHR ''%'' \<notin> set name \<and> CHR ''_'' \<notin> set name
                \<and> ((\<forall>x\<in>set vendors. normalize_name (v_name x) = normalize_name name \<longrightarrow> x = v)
                   \<or> (sql_lower (v_name v) = sql_lower name
                      \<and> (\<forall>x\<in>set vendors. lower (v_name x) = lower name \<longrightarrow> x = v)))
                \<longrightarrow> w = v)"
proof -
  from same have v_normal: "normalize_name (v_name v) = normalize_name name"
    by (rule lower_eq_imp_normalize_name_eq)
  have "find_exact_match vendors name (normalize_name name) \<noteq> None"
  proof (cases "List.find (\<lambda>x. ilike (v_name x) name) vendors")
    case None
    from stored v_normal
    have "List.find (\<lambda>x. normalize_name (v_name x) = normalize_name name) vendors \<noteq> None"
      by (auto simp: find_None_iff)
    with None show ?thesis by (simp add: find_exact_match_def)
  next
    case (Some x)
    then show ?thesis by (simp add: find_exact_match_def)
  qed
  then obtain w where exact: "find_exact_match vendors name (normalize_name name) = Some w"
    by auto
  from normal have "name \<noteq> []" by (rule normalize_name_nonempty)
  with normal exact
  have res: "find_existing_vendor ratio vendors name = (Some (w, 1), [Exact_pass])"
    by (simp add: find_existing_vendor_def)
  from exact have w_in: "w \<in> set vendors" by (rule find_exact_match_in_set)
  have "w = v"
    if plain: "CHR ''%'' \<notin> set name" "CHR ''_'' \<notin> set name"
      and only: "(\<forall>x\<in>set vendors. normalize_name (v_name x) = normalize_name name \<longrightarrow> x = v)
                   \<or> (sql_lower (v_name v) = sql_lower name
                      \<and> (\<forall>x\<in>set vendors. lower (v_name x) = lower name \<longrightarrow> x = v))"
  proof -
    show ?thesis
    proof (cases "List.find (\<lambda>x. ilike (v_name x) name) vendors")
      case (Some x)
      with exact have "List.find (\<lambda>x. ilike (v_name x) name) vendors = Some w"
        by (simp add: find_exact_match_def)
      then have "ilike (v_name w) name" by (auto simp: find_Some_iff)
      with plain have "sql_lower (v_name w) = sql_lower name" by (simp add: ilike_plain)
      then have w_lower: "lower (v_name w) = lower name" by (rule sql_lower_eq_imp_lower_eq)
      then have "normalize_name (v_name w) = normalize_name name"
        by (rule lower_eq_imp_normalize_name_eq)
      with w_lower w_in only show ?thesis by blast
    next
      case None
      with exact
      have "List.find (\<lambda>x. normalize_name (v_name x) = normalize_name name) vendors = Some w"
        by (simp add: find_exact_match_def)
      then have w_normal: "normalize_name (v_name w) = normalize_name name"
        by (auto simp: find_Some_iff)
      from None stored have "\<not> ilike (v_name v) name"
        by (auto simp: find_None_iff)
      then have "sql_lower (v_name v) \<noteq> sql_lower name"
        by (auto dest: ilike_same)
      with only w_normal w_in show ?thesis by blast
    qed
  qed
  with res w_in show ?thesis by blast
qed

text \<open>
  The amended claim at a table of two vendors, where the stored name and the queried
  name differ in the case of letters outside ASCII: the vendor is found by the loop
  over the normalised names.
\<close>

theorem exact_match_short_circuits_witness:
  "\<lparr>v_id = 2, v_name = island_upper, v_nicknames = None, v_domain = None\<rparr>
     \<in> set [\<lparr>v_id = 1, v_name = ''Acme Corp'', v_nicknames = None, v_domain = None\<rparr>,
            \<lparr>v_id = 2, v_name = island_upper, v_nicknames = None, v_domain = None\<rparr>]
   \<and> lower island_upper = lower island_lower
   \<and> normalize_name island_lower \<noteq> []
   \<and> find_existing_vendor identity_ratio
         [\<lparr>v_id = 1, v_name = ''Acme Corp'', v_nicknames = None, v_domain = None\<rparr>,
          \<lparr>v_id = 2, v_name = island_upper, v_nicknames = None, v_domain = None\<rparr>] island_lower
       = (Some (\<lparr>v_id = 2, v_name = island_upper, v_nicknames = None, v_domain = None\<rparr>, 1),
          [Exact_pass])"
proof -
  let ?a = "\<lparr>v_id = 1, v_name = ''Acme Corp'', v_nicknames = None, v_domain = None\<rparr>"
  let ?v = "\<lparr>v_id = 2, v_name = island_upper, v_nicknames = None, v_domain = None\<rparr>"
  have stored: "?v \<in> set [?a, ?v]" by simp
  have same: "lower (v_name ?v) = lower island_lower" by (simp add: island_facts)
  have normal: "normalize_name island_lower \<noteq> []" by (simp add: island_facts)
  have only: "\<forall>x\<in>set [?a, ?v]. normalize_name (v_name x) = normalize_name island_lower \<longrightarrow> x = ?v"
    using island_facts(8) by (simp add: island_facts(3,6))
  from exact_match_short_circuits [OF stored same normal, of identity_ratio]
  obtain w where res: "find_existing_vendor identity_ratio [?a, ?v] island_lower
        = (Some (w, 1), [Exact_pass])"
    and that_vendor: "CHR ''%'' \<notin> set island_lower \<and> CHR ''_'' \<notin> set island_lower
        \<and> ((\<forall>x\<in>set [?a, ?v]. normalize_name (v_name x) = normalize_name island_lower \<longrightarrow> x = ?v)
           \<or> (sql_lower (v_name ?v) = sql_lower island_lower
              \<and> (\<forall>x\<in>set [?a, ?v]. lower (v_name x) = lower island_lower \<longrightarrow> x = ?v)))
        \<longrightarrow> w = ?v"
    by blast
  from that_vendor only island_facts(9,10) have "w = ?v" by blast
  with res stored same normal show ?thesis by (simp add: island_facts)
qed

text \<open>
  C3 as stated fails in two places. Where the queried name consists of business
  suffixes only, its normalised form is empty and the function returns nothing before
  any pass over the table: a stored vendor "AB" queried as "ab". And where the stored
  name differs from the queried name in the case of letters outside ASCII, the vendor
  returned is the first one with the normalised name of the query, which may be
  another vendor: with the island's name as a company ("Inc") stored before the
  island's name in capitals, the query in small letters returns the company.
\<close>

theorem exact_match_counterexample:
  "(\<lparr>v_id = 1, v_name = ''AB'', v_nicknames = None, v_domain = None\<rparr>
      \<in> set [\<lparr>v_id = 1, v_name = ''AB'', v_nicknames = None, v_domain = None\<rparr>]
    \<and> lower ''AB'' = lower ''ab''
    \<and> find_existing_vendor identity_ratio
          [\<lparr>v_id = 1, v_name = ''AB'', v_nicknames = None, v_domain = None\<rparr>] ''ab''
        = (None, []))
   \<and> (\<lparr>v_id = 2, v_name = island_upper, v_nicknames = None, v_domain = None\<rparr>
      \<in> set [\<lparr>v_id = 1, v_name = island_inc, v_nicknames = None, v_domain = None\<rparr>,
             \<lparr>v_id = 2, v_name = island_upper, v_nicknames = None, v_domain = None\<rparr>]
    \<and> lower island_upper = lower island_lower
    \<and> find_existing_vendor identity_ratio
          [\<lparr>v_id = 1, v_name = island_inc, v_nicknames = None, v_domain = None\<rparr>,
           \<lparr>v_id = 2, v_name = island_upper, v_nicknames = None, v_domain = None\<rparr>] island_lower
        = (Some (\<lparr>v_id = 1, v_name = island_inc, v_nicknames = None, v_domain = None\<rparr>, 1),
           [Exact_pass]))"
proof -
  have "normalize_name ''ab'' = []" by code_simp
  then have first: "find_existing_vendor identity_ratio
         [\<lparr>v_id = 1, v_name = ''AB'', v_nicknames = None, v_domain = None\<rparr>] ''ab'' = (None, [])"
    by (simp add: find_existing_vendor_def)
  have folded: "lower ''AB'' = lower ''ab''" by code_simp
  have second: "find_existing_vendor identity_ratio
          [\<lparr>v_id = 1, v_name = island_inc, v_nicknames = None, v_domain = None\<rparr>,
           \<lparr>v_id = 2, v_name = island_upper, v_nicknames = None, v_domain = None\<rparr>] island_lower
        = (Some (\<lparr>v_id = 1, v_name = island_inc, v_nicknames = None, v_domain = None\<rparr>, 1),
           [Exact_pass])"
    by code_simp
  from first folded second island_facts(1) show ?thesis by simp
qed

text \<open>
  A queried name with \<^verbatim>\<open>%\<close> or \<^verbatim>\<open>_\<close> is read by the \<^verbatim>\<open>ilike\<close> query as a pattern, though
  the source calls the query an exact name match; the amended claim does not say
  which vendor is returned then. An instance: "ac\_e" against the stored names "Acme"
  and "Ac\_e".
\<close>

lemma pattern_characters_in_the_query:
  "find_existing_vendor identity_ratio
     [\<lparr>v_id = 1, v_name = ''Acme'', v_nicknames = None, v_domain = None\<rparr>,
      \<lparr>v_id = 2, v_name = ''Ac_e'', v_nicknames = None, v_domain = None\<rparr>] ''ac_e''
   = (Some (\<lparr>v_id = 1, v_name = ''Acme'', v_nicknames = None, v_domain = None\<rparr>, 1), [Exact_pass])"
  by code_simp

section \<open>Properties of the confidence calculator\<close>

lemma log10_of_10000: "log 10 10000 = 4"
proof -
  have power: "(10::real) ^ 4 = 10000" by simp
  have "log 10 ((10::real) ^ 4) = real 4" by (rule log_pow_cancel) simp_all
  then have "log 10 10000 = real 4" unfolding power .
  then show ?thesis by simp
qed

lemma text_part_nonnegative: "0 \<le> text_part transaction"
  by (simp add: text_part_def Let_def)

lemma amount_part_nonnegative: "0 \<le> amount_part transaction"
  by (simp add: amount_part_def Let_def le_max_iff_disj)

lemma message_part_nonnegative: "0 \<le> message_part transaction"
  by (simp add: message_part_def Let_def)

lemma quality_score_nonnegative: "0 \<le> calculate_transaction_quality_score transaction"
proof -
  have "0 \<le> completeness_part transaction" by (simp add: completeness_part_def)
  with text_part_nonnegative [of transaction] amount_part_nonnegative [of transaction]
    message_part_nonnegative [of transaction]
  show ?thesis by (simp add: calculate_transaction_quality_score_def)
qed

lemma quality_score_of_empty_transaction:
  assumes "get_str (txn_text transaction) = []" and "get_num (txn_amount transaction) = 0"
    and "filled_fields transaction = 0"
  shows "calculate_transaction_quality_score transaction = 0"
proof -
  from assms(3) have "\<not> truthy (txn_message transaction)"
    by (auto simp: filled_fields_def split: if_splits)
  then have "get_str (txn_message transaction) = []"
    by (cases "txn_message transaction") (auto simp: truthy_def get_str_def)
  with assms show ?thesis
    by (simp add: calculate_transaction_quality_score_def text_part_def amount_part_def
        completeness_part_def message_part_def)
qed

text \<open>
  C2. The claim is that \<^verbatim>\<open>calculate_transaction_quality_score\<close> lies in \<open>[0, 1]\<close> for
  every transaction, and is 0 for the empty one. The second half holds
  (\<open>quality_score_of_empty_transaction\<close>), and so does the lower bound
  (\<open>quality_score_nonnegative\<close>). The upper bound does not: the word-count factor
  of the text score is not capped, so a text of at least 50 characters and more than
  10 words scores above 1, and with a large amount, all five fields filled and a
  message of at least 30 characters the total is above 1.
\<close>

theorem quality_score_above_one:
  "calculate_transaction_quality_score
     \<lparr>txn_date = Some 0,
      txn_text = Some ''payment of invoice 12 to acme as per order 7 of 1 may 24'',
      txn_message = Some ''thank you for your business in may'',
      txn_amount = Some (- 10000), txn_currency = Some ''DKK'',
      txn_sender = Some ''Beta ApS'', txn_receiver = Some ''Acme A/S''\<rparr> = 1036 / 1000
   \<and> 1 < calculate_transaction_quality_score
     \<lparr>txn_date = Some 0,
      txn_text = Some ''payment of invoice 12 to acme as per order 7 of 1 may 24'',
      txn_message = Some ''thank you for your business in may'',
      txn_amount = Some (- 10000), txn_currency = Some ''DKK'',
      txn_sender = Some ''Beta ApS'', txn_receiver = Some ''Acme A/S''\<rparr>"
proof -
  let ?t = "\<lparr>txn_date = Some 0,
      txn_text = Some ''payment of invoice 12 to acme as per order 7 of 1 may 24'',
      txn_message = Some ''thank you for your business in may'',
      txn_amount = Some (- 10000), txn_currency = Some ''DKK'',
      txn_sender = Some ''Beta ApS'', txn_receiver = Some ''Acme A/S''\<rparr>"
  have words: "length (split_ws ''payment of invoice 12 to acme as per order 7 of 1 may 24'') = 14"
    by code_simp
  have t_part: "text_part ?t = 336 / 1000"
    by (simp add: text_part_def get_str_def words)
  have a_part: "amount_part ?t = 2 / 10"
    by (simp add: amount_part_def get_num_def log10_of_10000)
  have c_part: "completeness_part ?t = 3 / 10"
    by (simp add: completeness_part_def filled_fields_def truthy_def)
  have stripped: "strip ''thank you for your business in may'' \<noteq> []"
    by code_simp
  have m_part: "message_part ?t = 2 / 10"
    using stripped by (simp add: message_part_def get_str_def)
  have "calculate_transaction_quality_score ?t = 1036 / 1000"
    by (simp add: calculate_transaction_quality_score_def t_part a_part c_part m_part)
  then show ?thesis by simp
qed

text \<open>
  C9. For every vendor name and transaction, \<^verbatim>\<open>calculate_vendor_confidence\<close> called with
  an identification confidence of 0.0 returns what it returns with none supplied:
  zero is falsy, so the 60/40 blend is not applied.
\<close>

theorem zero_identification_confidence_ignored:
  "calculate_vendor_confidence ratio vendor_name transaction (Some 0)
     = calculate_vendor_confidence ratio vendor_name transaction None"
  by (simp add: calculate_vendor_confidence_def supplied_def)

text \<open>
  C6. For a domain that passes the URL check (not empty, and \<^verbatim>\<open>urlparse\<close> finds a
  non-empty network location), \<^verbatim>\<open>calculate_domain_confidence\<close> with status code 404
  returns \<open>(False, x)\<close> with \<open>x \<le> 0.1\<close> (the value is 0.05).
\<close>

theorem domain_confidence_404:
  assumes "domain \<noteq> []"
    and "netloc (if \<not> prefix ''http'' domain then ''https://'' @ domain else domain) = Some parsed_netloc"
    and "parsed_netloc \<noteq> []"
  shows "\<exists>x. calculate_domain_confidence netloc domain company_name response_time
                content_matches total_words 404 = (False, x) \<and> x \<le> 1 / 10"
proof -
  from assms have "calculate_domain_confidence netloc domain company_name response_time
      content_matches total_words 404 = (False, 5 / 100)"
    by (simp add: calculate_domain_confidence_def)
  moreover have "(5 / 100 :: real) \<le> 1 / 10" by simp
  ultimately show ?thesis by blast
qed

theorem domain_confidence_404_witness:
  "''acme.com'' \<noteq> []
   \<and> example_netloc (if \<not> prefix ''http'' ''acme.com'' then ''https://'' @ ''acme.com'' else ''acme.com'')
       = Some ''acme.com''
   \<and> (\<exists>x. calculate_domain_confidence example_netloc ''acme.com'' ''Acme'' (1 / 2) 0 1 404 = (False, x)
          \<and> x \<le> 1 / 10)"
proof -
  have a: "''acme.com'' \<noteq> []" by simp
  have b: "example_netloc (if \<not> prefix ''http'' ''acme.com'' then ''https://'' @ ''acme.com'' else ''acme.com'')
       = Some ''acme.com''"
    by (simp add: example_netloc_def)
  have "\<exists>x. calculate_domain_confidence example_netloc ''acme.com'' ''Acme'' (1 / 2) 0 1 404 = (False, x)
          \<and> x \<le> 1 / 10"
    using a b by (rule domain_confidence_404) simp
  with a b show ?thesis by blast
qed

section \<open>Properties of the duplicate detection\<close>

text \<open>
  C4. For two transactions whose amounts differ by less than 0.01 and whose texts are
  equal, \<^verbatim>\<open>_transactions_match\<close> is true when the dates are 12 hours apart and false
  when they are 36 hours apart.
\<close>

theorem transactions_match_window:
  assumes "txn_date trans1 = Some date1" and "txn_date trans2 = Some date2"
    and "\<bar>get_num (txn_amount trans1) - get_num (txn_amount trans2)\<bar> < 1 / 100"
    and "get_str (txn_text trans1) = get_str (txn_text trans2)"
  shows "(\<bar>date1 - date2\<bar> = 12 * 3600000000 \<longrightarrow> transactions_match trans1 trans2)
       \<and> (\<bar>date1 - date2\<bar> = 36 * 3600000000 \<longrightarrow> \<not> transactions_match trans1 trans2)"
proof -
  have twelve: "\<bar>total_seconds (date1 - date2)\<bar> < 86400" if "\<bar>date1 - date2\<bar> = 12 * 3600000000"
  proof -
    have "\<bar>total_seconds (date1 - date2)\<bar> = real_of_int \<bar>date1 - date2\<bar> / 1000000"
      unfolding total_seconds_def by simp
    also have "\<dots> = 43200" using that by simp
    finally show ?thesis by simp
  qed
  have thirtysix: "\<not> \<bar>total_seconds (date1 - date2)\<bar> < 86400" if "\<bar>date1 - date2\<bar> = 36 * 3600000000"
  proof -
    have "\<bar>total_seconds (date1 - date2)\<bar> = real_of_int \<bar>date1 - date2\<bar> / 1000000"
      unfolding total_seconds_def by simp
    also have "\<dots> = 129600" using that by simp
    finally show ?thesis by simp
  qed
  from assms twelve thirtysix show ?thesis by (simp add: transactions_match_def)
qed

theorem transactions_match_window_witness:
  "transactions_match
     \<lparr>txn_date = Some 0, txn_text = Some ''RENT'', txn_message = None, txn_amount = Some 100,
      txn_currency = None, txn_sender = None, txn_receiver = None\<rparr>
     \<lparr>txn_date = Some 43200000000, txn_text = Some ''RENT'', txn_message = None,
      txn_amount = Some (100005 / 1000), txn_currency = None, txn_sender = None,
      txn_receiver = None\<rparr>
   \<and> \<not> transactions_match
     \<lparr>txn_date = Some 0, txn_text = Some ''RENT'', txn_message = None, txn_amount = Some 100,
      txn_currency = None, txn_sender = None, txn_receiver = None\<rparr>
     \<lparr>txn_date = Some 129600000000, txn_text = Some ''RENT'', txn_message = None,
      txn_amount = Some (100005 / 1000), txn_currency = None, txn_sender = None,
      txn_receiver = None\<rparr>"
proof -
  let ?a = "\<lparr>txn_date = Some 0, txn_text = Some ''RENT'', txn_message = None, txn_amount = Some 100,
      txn_currency = None, txn_sender = None, txn_receiver = None\<rparr>"
  let ?b = "\<lparr>txn_date = Some 43200000000, txn_text = Some ''RENT'', txn_message = None,
      txn_amount = Some (100005 / 1000), txn_currency = None, txn_sender = None,
      txn_receiver = None\<rparr>"
  let ?c = "\<lparr>txn_date = Some 129600000000, txn_text = Some ''RENT'', txn_message = None,
      txn_amount = Some (100005 / 1000), txn_currency = None, txn_sender = None,
      txn_receiver = None\<rparr>"
  have "transactions_match ?a ?b"
    using transactions_match_window [of ?a 0 ?b 43200000000] by (simp add: get_num_def get_str_def)
  moreover have "\<not> transactions_match ?a ?c"
    using transactions_match_window [of ?a 0 ?c 129600000000] by (simp add: get_num_def get_str_def)
  ultimately show ?thesis by simp
qed


subsection \<open>The fuzzy scan\<close>

lemma compare_pair_accepted:
  assumes "compare_pair ratio new_trans existing = Inr (Some score)"
  shows "\<exists>new_amount existing_amount new_text date_diff.
           compute_date_diff new_trans existing = Inr date_diff \<and> date_diff \<le> 1
         \<and> txn_amount new_trans = Some new_amount \<and> row_amount existing = Some existing_amount
         \<and> \<bar>new_amount - existing_amount\<bar> \<le> 1 / 100
         \<and> txn_text new_trans = Some new_text
         \<and> ratio (lower new_text) (lower (get_str (row_text existing))) \<ge> 85 / 100
         \<and> score = (if date_diff = 0 then 1 else 8 / 10) * (3 / 10) + 1 * (3 / 10)
                     + ratio (lower new_text) (lower (get_str (row_text existing))) * (4 / 10)"
proof -
  obtain date_diff where dd: "compute_date_diff new_trans existing = Inr date_diff"
    using assms by (cases "compute_date_diff new_trans existing") (auto simp: compare_pair_def)
  have near: "date_diff \<le> 1"
    using assms dd by (cases "date_diff > 1") (auto simp: compare_pair_def)
  obtain new_amount where na: "txn_amount new_trans = Some new_amount"
    using assms dd near by (cases "txn_amount new_trans") (auto simp: compare_pair_def)
  obtain existing_amount where ea: "row_amount existing = Some existing_amount"
    using assms dd near na by (cases "row_amount existing") (auto simp: compare_pair_def)
  have close: "\<bar>new_amount - existing_amount\<bar> \<le> 1 / 100"
    using assms dd near na ea
    by (cases "\<bar>new_amount - existing_amount\<bar> > 1 / 100") (auto simp: compare_pair_def)
  obtain new_text where nt: "txn_text new_trans = Some new_text"
    using assms dd near na ea close
    by (cases "txn_text new_trans") (auto simp: compare_pair_def)
  let ?sim = "ratio (lower new_text) (lower (get_str (row_text existing)))"
  have body: "compare_pair ratio new_trans existing =
      (if ?sim \<ge> 85 / 100
       then Inr (Some ((if date_diff = 0 then 1 else 8 / 10) * (3 / 10) + 1 * (3 / 10)
                       + ?sim * (4 / 10)))
       else Inr None)"
    using dd near na ea close nt by (simp add: compare_pair_def Let_def)
  have similar: "?sim \<ge> 85 / 100"
    using assms body by (cases "?sim \<ge> 85 / 100") auto
  with assms body
  have "score = (if date_diff = 0 then 1 else 8 / 10) * (3 / 10) + 1 * (3 / 10) + ?sim * (4 / 10)"
    by simp
  with dd near na ea close nt similar show ?thesis by blast
qed

lemma scan_existing_first:
  assumes "scan_existing ratio new_trans existing_transactions = Inr (Some dup)"
  shows "\<exists>before existing after score.
           existing_transactions = before @ existing # after
         \<and> dup = (new_trans, existing, score)
         \<and> compare_pair ratio new_trans existing = Inr (Some score)
         \<and> (\<forall>x\<in>set before. compare_pair ratio new_trans x = Inr None)"
  using assms
proof (induction existing_transactions)
  case Nil
  then show ?case by simp
next
  case (Cons e rest)
  show ?case
  proof (cases "compare_pair ratio new_trans e")
    case (Inl err)
    with Cons.prems show ?thesis by simp
  next
    case (Inr verdict)
    show ?thesis
    proof (cases verdict)
      case None
      with Inr Cons.prems have "scan_existing ratio new_trans rest = Inr (Some dup)" by simp
      from Cons.IH [OF this] obtain before existing after score where
        "rest = before @ existing # after" "dup = (new_trans, existing, score)"
        "compare_pair ratio new_trans existing = Inr (Some score)"
        "\<forall>x\<in>set before. compare_pair ratio new_trans x = Inr None"
        by blast
      with Inr None have "e # rest = (e # before) @ existing # after
         \<and> dup = (new_trans, existing, score)
         \<and> compare_pair ratio new_trans existing = Inr (Some score)
         \<and> (\<forall>x\<in>set (e # before). compare_pair ratio new_trans x = Inr None)"
        by simp
      then show ?thesis by blast
    next
      case (Some score)
      with Inr Cons.prems have "e # rest = [] @ e # rest \<and> dup = (new_trans, e, score)
         \<and> compare_pair ratio new_trans e = Inr (Some score)
         \<and> (\<forall>x\<in>set []. compare_pair ratio new_trans x = Inr None)"
        by auto
      then show ?thesis by blast
    qed
  qed
qed

lemma scan_new_result:
  assumes "scan_new ratio new_transactions existing_transactions duplicates = Inr result"
  shows "\<exists>found. result = duplicates @ found
           \<and> subseq (map fst found) new_transactions
           \<and> (\<forall>dup\<in>set found. scan_existing ratio (fst dup) existing_transactions = Inr (Some dup))"
  using assms
proof (induction new_transactions arbitrary: duplicates)
  case Nil
  then show ?case by simp
next
  case (Cons n rest)
  show ?case
  proof (cases "scan_existing ratio n existing_transactions")
    case (Inl err)
    with Cons.prems show ?thesis by simp
  next
    case (Inr verdict)
    show ?thesis
    proof (cases verdict)
      case None
      with Inr Cons.prems have "scan_new ratio rest existing_transactions duplicates = Inr result"
        by simp
      from Cons.IH [OF this] obtain found where "result = duplicates @ found"
        "subseq (map fst found) rest"
        "\<forall>dup\<in>set found. scan_existing ratio (fst dup) existing_transactions = Inr (Some dup)"
        by blast
      then have "result = duplicates @ found \<and> subseq (map fst found) (n # rest)
        \<and> (\<forall>dup\<in>set found. scan_existing ratio (fst dup) existing_transactions = Inr (Some dup))"
        by auto
      then show ?thesis by blast
    next
      case (Some dup)
      with Inr Cons.prems
      have "scan_new ratio rest existing_transactions (duplicates @ [dup]) = Inr result"
        by simp
      from Cons.IH [OF this] obtain found where found: "result = (duplicates @ [dup]) @ found"
        "subseq (map fst found) rest"
        "\<forall>d\<in>set found. scan_existing ratio (fst d) existing_transactions = Inr (Some d)"
        by blast
      from Inr Some have "fst dup = n"
        by (auto dest: scan_existing_first)
      with found Inr Some
      have "result = duplicates @ (dup # found) \<and> subseq (map fst (dup # found)) (n # rest)
        \<and> (\<forall>d\<in>set (dup # found). scan_existing ratio (fst d) existing_transactions = Inr (Some d))"
        by simp
      then show ?thesis by blast
    qed
  qed
qed


lemma found_duplicates:
  assumes "find_duplicate_transactions ratio new_transactions table now days_lookback = Inr duplicates"
  shows "subseq (map fst duplicates) new_transactions"
    and "\<forall>dup\<in>set duplicates.
           scan_existing ratio (fst dup) (recent_transactions table now days_lookback) = Inr (Some dup)"
  using scan_new_result [of ratio new_transactions "recent_transactions table now days_lookback" "[]" duplicates]
    assms
  by (auto simp: find_duplicate_transactions_def)

lemma duplicate_accepted:
  assumes "find_duplicate_transactions ratio new_transactions table now days_lookback = Inr duplicates"
    and "(new_trans, existing, score) \<in> set duplicates"
  shows "compare_pair ratio new_trans existing = Inr (Some score)"
proof -
  from found_duplicates(2) [OF assms(1)] assms(2)
  have "scan_existing ratio new_trans (recent_transactions table now days_lookback)
          = Inr (Some (new_trans, existing, score))"
    by fastforce
  then show ?thesis by (auto dest: scan_existing_first)
qed

lemma lower_rent: "lower ''RENT MAY'' = ''rent may''" "lower ''Rent May'' = ''rent may''"
  by code_simp+

lemma recent_rent:
  "recent_transactions [rent_day_before, rent_same_day] 86400000000 7 = [rent_day_before, rent_same_day]"
  by (simp add: recent_transactions_def rent_day_before_def rent_same_day_def microseconds_per_day_def)

lemma compare_rent_day_before:
  "compare_pair identity_ratio rent_new rent_day_before = Inr (Some (94 / 100))"
  by (simp add: compare_pair_def compute_date_diff_def days_def microseconds_per_day_def
      rent_new_def rent_day_before_def get_str_def lower_rent identity_ratio_def)

lemma compare_rent_same_day:
  "compare_pair identity_ratio rent_new rent_same_day = Inr (Some 1)"
  by (simp add: compare_pair_def compute_date_diff_def days_def microseconds_per_day_def
      rent_new_def rent_same_day_def get_str_def lower_rent identity_ratio_def)

lemma compare_rent_two_cents_off:
  "compare_pair identity_ratio rent_two_cents_off rent_day_before = Inr None"
  "compare_pair identity_ratio rent_two_cents_off rent_same_day = Inr None"
  by (simp_all add: compare_pair_def compute_date_diff_def days_def microseconds_per_day_def
      rent_two_cents_off_def rent_new_def rent_day_before_def rent_same_day_def)

lemma find_rent:
  "find_duplicate_transactions identity_ratio [rent_two_cents_off, rent_new]
     [rent_day_before, rent_same_day] 86400000000 7 = Inr [(rent_new, rent_day_before, 94 / 100)]"
  by (simp add: find_duplicate_transactions_def recent_rent compare_rent_day_before
      compare_rent_two_cents_off)

text \<open>
  C5. A pair of a new and a stored transaction whose amounts differ by 0.02 is in no
  tuple of the list the fuzzy scan returns, whatever their texts are.
\<close>

theorem amount_gap_never_flagged:
  assumes "find_duplicate_transactions ratio new_transactions table now days_lookback = Inr duplicates"
    and "txn_amount new_trans = Some new_amount"
    and "row_amount existing = Some existing_amount"
    and "\<bar>new_amount - existing_amount\<bar> = 2 / 100"
  shows "(new_trans, existing, score) \<notin> set duplicates"
proof
  assume "(new_trans, existing, score) \<in> set duplicates"
  with assms(1) have "compare_pair ratio new_trans existing = Inr (Some score)"
    by (rule duplicate_accepted)
  then obtain a b where "txn_amount new_trans = Some a" "row_amount existing = Some b"
    "\<bar>a - b\<bar> \<le> 1 / 100"
    by (blast dest: compare_pair_accepted)
  with assms(2-4) show False by simp
qed

theorem amount_gap_never_flagged_witness:
  "find_duplicate_transactions identity_ratio [rent_two_cents_off, rent_new]
     [rent_day_before, rent_same_day] 86400000000 7 = Inr [(rent_new, rent_day_before, 94 / 100)]
   \<and> txn_amount rent_two_cents_off = Some (- 500002 / 100)
   \<and> row_amount rent_day_before = Some (- 5000)
   \<and> \<bar>- 500002 / 100 - (- 5000 :: real)\<bar> = 2 / 100
   \<and> (rent_two_cents_off, rent_day_before, 94 / 100)
       \<notin> set [(rent_new, rent_day_before, 94 / 100 :: real)]"
proof -
  have a: "txn_amount rent_two_cents_off = Some (- 500002 / 100)"
    by (simp add: rent_two_cents_off_def)
  have b: "row_amount rent_day_before = Some (- 5000)"
    by (simp add: rent_day_before_def)
  have c: "\<bar>- 500002 / 100 - (- 5000 :: real)\<bar> = 2 / 100" by simp
  from amount_gap_never_flagged [OF find_rent a b c, of "94 / 100"] find_rent a b c
  show ?thesis by blast
qed

text \<open>
  C8. Each new transaction contributes at most one tuple to the list the fuzzy scan
  returns (the new transactions of the tuples are a subsequence of the new
  transactions given), and the stored transaction of a tuple is the first one, in the
  order of the stored transactions read, that passes the date, amount and text checks:
  every one before it was rejected. It need not be the one with the highest score: in
  the example the stored copy dated the day before is taken with score 0.94, though
  the copy of the same day, later in the table, would score 1.
\<close>

theorem first_match_wins:
  "(find_duplicate_transactions ratio new_transactions table now days_lookback = Inr duplicates \<longrightarrow>
      subseq (map fst duplicates) new_transactions
    \<and> (\<forall>(new_trans, existing, score) \<in> set duplicates.
          \<exists>before after.
            recent_transactions table now days_lookback = before @ existing # after
          \<and> compare_pair ratio new_trans existing = Inr (Some score)
          \<and> (\<forall>x\<in>set before. compare_pair ratio new_trans x = Inr None)))
   \<and> find_duplicate_transactions identity_ratio [rent_new] [rent_day_before, rent_same_day]
         86400000000 7 = Inr [(rent_new, rent_day_before, 94 / 100)]
   \<and> compare_pair identity_ratio rent_new rent_same_day = Inr (Some 1)"
proof (intro impI conjI)
  assume run: "find_duplicate_transactions ratio new_transactions table now days_lookback = Inr duplicates"
  then show "subseq (map fst duplicates) new_transactions" by (rule found_duplicates(1))
  show "\<forall>(new_trans, existing, score) \<in> set duplicates.
          \<exists>before after.
            recent_transactions table now days_lookback = before @ existing # after
          \<and> compare_pair ratio new_trans existing = Inr (Some score)
          \<and> (\<forall>x\<in>set before. compare_pair ratio new_trans x = Inr None)"
  proof (clarify)
    fix new_trans existing score
    assume "(new_trans, existing, score) \<in> set duplicates"
    with found_duplicates(2) [OF run]
    have "scan_existing ratio new_trans (recent_transactions table now days_lookback)
            = Inr (Some (new_trans, existing, score))"
      by fastforce
    from scan_existing_first [OF this]
    show "\<exists>before after.
            recent_transactions table now days_lookback = before @ existing # after
          \<and> compare_pair ratio new_trans existing = Inr (Some score)
          \<and> (\<forall>x\<in>set before. compare_pair ratio new_trans x = Inr None)"
      by auto
  qed
next
  show "find_duplicate_transactions identity_ratio [rent_new] [rent_day_before, rent_same_day]
         86400000000 7 = Inr [(rent_new, rent_day_before, 94 / 100)]"
    by (simp add: find_duplicate_transactions_def recent_rent compare_rent_day_before)
next
  show "compare_pair identity_ratio rent_new rent_same_day = Inr (Some 1)"
    by (rule compare_rent_same_day)
qed

theorem first_match_wins_witness:
  "find_duplicate_transactions identity_ratio [rent_two_cents_off, rent_new]
     [rent_day_before, rent_same_day] 86400000000 7 = Inr [(rent_new, rent_day_before, 94 / 100)]
   \<and> subseq (map fst [(rent_new, rent_day_before, 94 / 100 :: real)]) [rent_two_cents_off, rent_new]
   \<and> (\<exists>before after.
         recent_transactions [rent_day_before, rent_same_day] 86400000000 7
           = before @ rent_day_before # after
       \<and> compare_pair identity_ratio rent_new rent_day_before = Inr (Some (94 / 100))
       \<and> (\<forall>x\<in>set before. compare_pair identity_ratio rent_new x = Inr None))"
  using first_match_wins [of identity_ratio "[rent_two_cents_off, rent_new]"
      "[rent_day_before, rent_same_day]" 86400000000 7 "[(rent_new, rent_day_before, 94 / 100)]"]
    find_rent
  by simp

text \<open>
  C10. When the sequence matcher keeps to its range \<open>[0, 1]\<close>, every similarity score in
  the list the fuzzy scan returns lies in \<open>[0.88, 1]\<close>: an accepted pair has text
  similarity at least 0.85 and date factor 0.8 or 1.
\<close>

theorem similarity_score_bounds:
  assumes "ratio_in_unit ratio"
    and "find_duplicate_transactions ratio new_transactions table now days_lookback = Inr duplicates"
    and "(new_trans, existing, score) \<in> set duplicates"
  shows "88 / 100 \<le> score \<and> score \<le> 1"
proof -
  from assms(2,3) have "compare_pair ratio new_trans existing = Inr (Some score)"
    by (rule duplicate_accepted)
  then obtain new_text date_diff where
    sim: "ratio (lower new_text) (lower (get_str (row_text existing))) \<ge> 85 / 100"
    and score: "score = (if date_diff = (0::int) then 1 else 8 / 10) * (3 / 10) + 1 * (3 / 10)
                     + ratio (lower new_text) (lower (get_str (row_text existing))) * (4 / 10)"
    by (blast dest: compare_pair_accepted)
  from assms(1) have "ratio (lower new_text) (lower (get_str (row_text existing))) \<le> 1"
    by (simp add: ratio_in_unit_def)
  with sim score show ?thesis by (cases "date_diff = 0") simp_all
qed

theorem similarity_score_bounds_witness:
  "ratio_in_unit identity_ratio
   \<and> find_duplicate_transactions identity_ratio [rent_two_cents_off, rent_new]
       [rent_day_before, rent_same_day] 86400000000 7 = Inr [(rent_new, rent_day_before, 94 / 100)]
   \<and> (rent_new, rent_day_before, 94 / 100) \<in> set [(rent_new, rent_day_before, 94 / 100 :: real)]
   \<and> 88 / 100 \<le> (94 / 100 :: real) \<and> (94 / 100 :: real) \<le> 1"
proof -
  have a: "ratio_in_unit identity_ratio"
    by (simp add: ratio_in_unit_def identity_ratio_def)
  have b: "(rent_new, rent_day_before, 94 / 100) \<in> set [(rent_new, rent_day_before, 94 / 100 :: real)]"
    by simp
  from similarity_score_bounds [OF a find_rent b] a find_rent b show ?thesis by blast
qed

end
